theory Spec2Isabelle
  imports Main "HOL-Library.Word" "HOL-Library.AList"
begin

section \<open>Image arrays\<close>

text \<open>
  The layers of \<^verbatim>\<open>cspstiff.py\<close> are numpy arrays of image data, indexed
  (row, column, channel); the array the code builds itself has \<^verbatim>\<open>dtype=np.uint8\<close>.
  An array is modelled by its shape and its samples, row by row, pixel by pixel. Only
  three-dimensional arrays of unsigned 8-bit samples are modelled.
\<close>

type_synonym uint8 = "8 word"

record ndarray =
  nd_shape :: "nat \<times> nat \<times> nat"
  nd_data :: "uint8 list list list"

text \<open>\<^verbatim>\<open>img.shape[0]\<close>, \<^verbatim>\<open>img.shape[1]\<close>, \<^verbatim>\<open>img.shape[2]\<close> and \<^verbatim>\<open>img.shape[:2]\<close>.\<close>

definition shape0 :: "ndarray \<Rightarrow> nat" where
  "shape0 a = fst (nd_shape a)"

definition shape1 :: "ndarray \<Rightarrow> nat" where
  "shape1 a = fst (snd (nd_shape a))"

definition shape2 :: "ndarray \<Rightarrow> nat" where
  "shape2 a = snd (snd (nd_shape a))"

definition shape_hw :: "ndarray \<Rightarrow> nat \<times> nat" where
  "shape_hw a = (shape0 a, shape1 a)"

text \<open>The samples of an array fill its shape: the representation invariant of an array.\<close>

definition wf_ndarray :: "ndarray \<Rightarrow> bool" where
  "wf_ndarray a \<longleftrightarrow>
     length (nd_data a) = shape0 a \<and>
     list_all (\<lambda>row. length row = shape1 a \<and>
                 list_all (\<lambda>px. length px = shape2 a) row) (nd_data a)"

text \<open>\<^verbatim>\<open>a[i, j, k]\<close>, read inside the shape.\<close>

definition getitem :: "ndarray \<Rightarrow> nat \<Rightarrow> nat \<Rightarrow> nat \<Rightarrow> uint8" where
  "getitem a i j k = nd_data a ! i ! j ! k"

text \<open>\<^verbatim>\<open>np.zeros(sh, dtype=np.uint8)\<close>.\<close>

definition np_zeros :: "nat \<times> nat \<times> nat \<Rightarrow> ndarray" where
  "np_zeros sh =
     (case sh of (h, w, c) \<Rightarrow>
        \<lparr>nd_shape = sh, nd_data = replicate h (replicate w (replicate c 0))\<rparr>)"

text \<open>\<^verbatim>\<open>dst[:, :, :3] = src\<close>: the first three samples of every pixel are taken from
  \<open>src\<close>, the others stay.\<close>

definition setitem_rgb :: "ndarray \<Rightarrow> ndarray \<Rightarrow> ndarray" where
  "setitem_rgb dst src =
     dst\<lparr>nd_data := map2 (map2 (\<lambda>d s. take 3 s @ drop 3 d)) (nd_data dst) (nd_data src)\<rparr>"

text \<open>\<^verbatim>\<open>dst[:, :, 3] = v\<close>.\<close>

definition setitem_alpha :: "ndarray \<Rightarrow> uint8 \<Rightarrow> ndarray" where
  "setitem_alpha dst v = dst\<lparr>nd_data := map (map (\<lambda>px. px[3 := v])) (nd_data dst)\<rparr>"

section \<open>Decimal text of a number\<close>

text \<open>The f-strings of the code print natural numbers in decimal.\<close>

definition digit_char :: "nat \<Rightarrow> char" where
  "digit_char d = ''0123456789'' ! d"

fun str_nat :: "nat \<Rightarrow> string" where
  "str_nat n = (if n < 10 then [digit_char n] else str_nat (n div 10) @ [digit_char (n mod 10)])"

declare str_nat.simps [simp del]

text \<open>The text of a pair of numbers, as Python prints a 2-tuple.\<close>

definition str_tuple :: "nat \<times> nat \<Rightarrow> string" where
  "str_tuple t = ''('' @ str_nat (fst t) @ '', '' @ str_nat (snd t) @ '')''"

section \<open>The layer store\<close>

text \<open>
  \<^verbatim>\<open>class CSPSTiff\<close>: the canvas shape (\<open>None\<close> until known) and the list of
  (image, offset) pairs. An offset is (row, column), from (top, left).
\<close>

type_synonym offset = "int \<times> int"

record CSPSTiff =
  shape :: "(nat \<times> nat) option"
  layers :: "(ndarray \<times> offset) list"

text \<open>\<^verbatim>\<open>__init__(self, shape=None)\<close>.\<close>

definition CSPSTiff_init :: "(nat \<times> nat) option \<Rightarrow> CSPSTiff" where
  "CSPSTiff_init sh = \<lparr>shape = sh, layers = []\<rparr>"

text \<open>Lines 68 to 72 of \<^verbatim>\<open>add_layer\<close>: the RGBA image built from an RGB one.\<close>

definition alpha_value :: uint8 where
  "alpha_value = 128"

definition rgba_image :: "ndarray \<Rightarrow> ndarray" where
  "rgba_image img =
     setitem_alpha (setitem_rgb (np_zeros (shape0 img, shape1 img, 4)) img) alpha_value"

text \<open>The two lines \<^verbatim>\<open>add_layer\<close> can print.\<close>

definition channels_notice :: string where
  "channels_notice = ''IMG HAS ONLY 3 CHANNELS (should be RGBA)''"

definition shape_notice :: "nat \<times> nat \<Rightarrow> nat \<times> nat \<Rightarrow> string" where
  "shape_notice hw sh =
     ''IMG shape is '' @ str_tuple hw @ '', existing shape is '' @ str_tuple sh"

text \<open>
  \<^verbatim>\<open>add_layer(self, img, offset=(0,0))\<close>. The method returns nothing; it changes the
  store and prints. The model returns the new store and the lines printed by the call,
  in order. \<open>channel_step\<close> is the first \<^verbatim>\<open>if\<close> (lines 66 to 72), \<open>shape_step\<close> the
  \<^verbatim>\<open>if\<close>/\<^verbatim>\<open>elif\<close> on the canvas shape (lines 75 to 78).
\<close>

definition channel_step :: "ndarray \<Rightarrow> ndarray \<times> string list" where
  "channel_step img =
     (if shape2 img = 3 then (rgba_image img, [channels_notice]) else (img, []))"

definition shape_step :: "(nat \<times> nat) option \<Rightarrow> ndarray \<Rightarrow> (nat \<times> nat) option \<times> string list" where
  "shape_step sh img =
     (case sh of
        None \<Rightarrow> (Some (shape_hw img), [])
      | Some existing \<Rightarrow>
          if shape_hw img \<noteq> existing
          then (sh, [shape_notice (shape_hw img) existing])
          else (sh, []))"

definition add_layer :: "CSPSTiff \<Rightarrow> ndarray \<Rightarrow> offset \<Rightarrow> CSPSTiff \<times> string list" where
  "add_layer self img offset =
     (let (img', out1) = channel_step img;
          (sh', out2) = shape_step (shape self) img'
      in (self\<lparr>shape := sh', layers := layers self @ [(img', offset)]\<rparr>, out1 @ out2))"

text \<open>The default offset.\<close>

definition add_layer_default :: "CSPSTiff \<Rightarrow> ndarray \<Rightarrow> CSPSTiff \<times> string list" where
  "add_layer_default self img = add_layer self img (0, 0)"

text \<open>A sequence of \<^verbatim>\<open>add_layer\<close> calls on a store, the printed lines collected.\<close>

fun add_layers :: "CSPSTiff \<Rightarrow> (ndarray \<times> offset) list \<Rightarrow> CSPSTiff \<times> string list" where
  "add_layers self [] = (self, [])"
| "add_layers self ((img, offset) # calls) =
     (let (self', out1) = add_layer self img offset;
          (self'', out2) = add_layers self' calls
      in (self'', out1 @ out2))"

section \<open>The layer records of the psdtags library\<close>

text \<open>
  The code imports its record classes and enumerations from the psdtags library and only
  constructs them. The enumerations list the members the code names and some of their
  siblings; the classes are containers of the fields the code passes.
\<close>

datatype PsdChannelId =
  CHANNEL0 | CHANNEL1 | CHANNEL2 | CHANNEL3
  | TRANSPARENCY_MASK | USER_LAYER_MASK | REAL_USER_LAYER_MASK

datatype PsdCompressionType = RAW | RLE | ZIP | ZIP_PREDICTED

datatype PsdBlendMode = PASS | NORMAL | DISSOLVE | DARKEN | MULTIPLY | SCREEN | OVERLAY

datatype PsdClippingType = BASE | NONBASE

datatype PsdLayerFlag = TRANSPARENCY_PROTECTED | VISIBLE | OBSOLETE | PHOTOSHOP5 | IRRELEVANT

datatype PsdColorSpaceType = RGB | HSB | CMYK | Lab | Gray

datatype PsdFormat = BE32BIT | LE32BIT | BE64BIT | LE64BIT

datatype PsdKey = LAYER | LAYER_16 | LAYER_32 | PATTERNS | UNICODE_LAYER_NAME | FILTER_MASK

datatype PsdLayerMask = PsdLayerMask

datatype PsdUserMask = PsdUserMask PsdColorSpaceType "nat \<times> nat \<times> nat \<times> nat" nat

datatype PsdInfo =
  PsdEmpty PsdKey
  | PsdFilterMask PsdColorSpaceType "nat \<times> nat \<times> nat \<times> nat" nat
  | PsdString PsdKey string

record PsdRectangle =
  rect_top :: int
  rect_left :: int
  rect_bottom :: int
  rect_right :: int

record PsdChannel =
  channelid :: PsdChannelId
  compression :: PsdCompressionType
  data :: "uint8 list list"

record PsdLayer =
  name :: string
  rectangle :: PsdRectangle
  channels :: "PsdChannel list"
  mask :: PsdLayerMask
  opacity :: nat
  blendmode :: PsdBlendMode
  blending_ranges :: "(nat \<times> nat) list"
  clipping :: PsdClippingType
  flags :: "PsdLayerFlag set"
  info :: "PsdInfo list"

datatype PsdLayers =
  PsdLayers (psd_key: PsdKey) (has_transparency: bool) (psd_layers: "PsdLayer list")

section \<open>Errors\<close>

text \<open>
  \<open>Exception\<close> is the \<^verbatim>\<open>raise Exception(...)\<close> of \<^verbatim>\<open>write\<close>, with its message;
  \<open>IndexError\<close> is what indexing a channel beyond the third dimension raises;
  \<open>LibraryError\<close> is anything a library call raises.
\<close>

datatype error = Exception string | IndexError | LibraryError string

section \<open>The module-level parameter dictionary\<close>

text \<open>
  \<^verbatim>\<open>TIFFIMAGESOURCEDATA_PARAMS_DICT\<close> is an ordered dictionary from keyword names to
  values of several classes, shared by all the stores of the process. It is an
  association list here; \<open>AList.update\<close> is the assignment \<^verbatim>\<open>d[k] = v\<close>, which keeps
  the position of a key that exists.
\<close>

datatype param_value =
  PyNone
  | PyStr string
  | PyFormat PsdFormat
  | PyLayers PsdLayers
  | PyUserMask PsdUserMask
  | PyInfo "PsdInfo list"

type_synonym params_dict = "(string \<times> param_value) list"

definition TIFFIMAGESOURCEDATA_PARAMS_DICT :: params_dict where
  "TIFFIMAGESOURCEDATA_PARAMS_DICT =
     [(''name'', PyStr ''Layered TIFF''),
      (''psdformat'', PyFormat LE32BIT),
      (''layers'', PyNone),
      (''usermask'', PyUserMask (PsdUserMask RGB (65535, 0, 0, 0) 50)),
      (''info'', PyInfo [PsdEmpty PATTERNS, PsdFilterMask RGB (65535, 0, 0, 0) 50])]"

text \<open>\<^verbatim>\<open>TiffImageSourceData(**d)\<close>: the library's object, built from the keyword
  arguments it is given.\<close>

datatype TiffImageSourceData = TiffImageSourceData params_dict

section \<open>Building the layer records\<close>

text \<open>\<^verbatim>\<open>layer[..., k]\<close>: the plane of channel \<open>k\<close>; numpy raises IndexError when the
  array has no channel \<open>k\<close>.\<close>

definition getitem_channel :: "ndarray \<Rightarrow> nat \<Rightarrow> error + uint8 list list" where
  "getitem_channel a k =
     (if k < shape2 a then Inr (map (map (\<lambda>px. px ! k)) (nd_data a)) else Inl IndexError)"

text \<open>One \<^verbatim>\<open>PsdChannel(channelid=..., compression=ZIP_PREDICTED, data=layer[..., k])\<close>.\<close>

definition psd_channel :: "PsdChannelId \<Rightarrow> ndarray \<Rightarrow> nat \<Rightarrow> error + PsdChannel" where
  "psd_channel cid layer k =
     (case getitem_channel layer k of
        Inl e \<Rightarrow> Inl e
      | Inr d \<Rightarrow> Inr \<lparr>channelid = cid, compression = ZIP_PREDICTED, data = d\<rparr>)"

text \<open>\<^verbatim>\<open>f"layer_{layer_num}"\<close>.\<close>

definition layer_name_of :: "nat \<Rightarrow> string" where
  "layer_name_of layer_num = ''layer_'' @ str_nat layer_num"

text \<open>The body of the loop of \<^verbatim>\<open>_prep_layers\<close>, lines 90 to 129: the record of one
  layer. The four channel planes are read in the order of the source: 3, 0, 1, 2.\<close>

definition new_layer :: "ndarray \<Rightarrow> offset \<Rightarrow> nat \<Rightarrow> error + PsdLayer" where
  "new_layer layer offset layer_num =
     (let layer_name = layer_name_of layer_num;
          rect = \<lparr>rect_top = fst offset,
                  rect_left = snd offset,
                  rect_bottom = fst offset + int (shape0 layer),
                  rect_right = snd offset + int (shape1 layer)\<rparr>
      in (case psd_channel TRANSPARENCY_MASK layer 3 of
           Inl e \<Rightarrow> Inl e
         | Inr ca \<Rightarrow>
         (case psd_channel CHANNEL0 layer 0 of
           Inl e \<Rightarrow> Inl e
         | Inr c0 \<Rightarrow>
         (case psd_channel CHANNEL1 layer 1 of
           Inl e \<Rightarrow> Inl e
         | Inr c1 \<Rightarrow>
         (case psd_channel CHANNEL2 layer 2 of
           Inl e \<Rightarrow> Inl e
         | Inr c2 \<Rightarrow>
             Inr \<lparr>name = layer_name,
                  rectangle = rect,
                  channels = [ca, c0, c1, c2],
                  mask = PsdLayerMask,
                  opacity = 255,
                  blendmode = NORMAL,
                  blending_ranges = [],
                  clipping = BASE,
                  flags = {PHOTOSHOP5} \<union> {TRANSPARENCY_PROTECTED},
                  info = [PsdString UNICODE_LAYER_NAME layer_name]\<rparr>)))))"

text \<open>The loop of \<^verbatim>\<open>_prep_layers\<close> over \<^verbatim>\<open>self.layers\<close>, with its counter
  \<^verbatim>\<open>layer_num\<close> and the list \<^verbatim>\<open>layers\<close> it appends to.\<close>

fun prep_loop :: "(ndarray \<times> offset) list \<Rightarrow> nat \<Rightarrow> PsdLayer list \<Rightarrow> error + PsdLayer list" where
  "prep_loop [] layer_num acc = Inr acc"
| "prep_loop ((layer, offset) # rest) layer_num acc =
     (case new_layer layer offset layer_num of
        Inl e \<Rightarrow> Inl e
      | Inr l \<Rightarrow> prep_loop rest (layer_num + 1) (acc @ [l]))"

text \<open>\<^verbatim>\<open>_prep_layers(self)\<close>.\<close>

definition prep_layers :: "CSPSTiff \<Rightarrow> error + PsdLayer list" where
  "prep_layers self = prep_loop (layers self) 0 []"

section \<open>Writing the file\<close>

text \<open>
  An extra tag as tifffile takes it: (code, data type, count, value, writeonce).
\<close>

type_synonym extratag = "nat \<times> nat \<times> nat option \<times> uint8 list \<times> bool"

text \<open>
  The call \<^verbatim>\<open>tifffile.imwrite(filepath, composite, photometric=..., ...)\<close>. The file
  that \<^verbatim>\<open>write\<close> produces is what tifffile makes of these arguments: \<open>tiff_data\<close> is
  the primary raster, and the file holds the parameters as they are given, but for the
  resolution (see \<open>stored_resolution\<close> below).
\<close>

record imwrite_call =
  tiff_file :: string
  tiff_data :: ndarray
  tiff_photometric :: string
  tiff_compression :: string
  tiff_resolution :: "(nat \<times> nat) \<times> (nat \<times> nat)"
  tiff_resolutionunit :: string
  tiff_metadata :: "(string \<times> string) list option"
  tiff_extratags :: "extratag list"

text \<open>
  What tifffile stores for a resolution. It writes the tags XResolution and YResolution
  of the file from the two pairs it is given through \<^verbatim>\<open>tifffile.rational\<close>, which
  builds \<^verbatim>\<open>Fraction(arg[0], arg[1])\<close> and takes its numerator and denominator:
  the fraction in lowest terms, and ZeroDivisionError for the denominator 0. (Beyond
  32 bits it would scale the pair; the numbers here are far below.)
\<close>

definition tifffile_rational :: "nat \<times> nat \<Rightarrow> error + nat \<times> nat" where
  "tifffile_rational arg =
     (if snd arg = 0 then Inl (LibraryError ''ZeroDivisionError'')
      else Inr (fst arg div gcd (fst arg) (snd arg), snd arg div gcd (fst arg) (snd arg)))"

definition stored_resolution :: "imwrite_call \<Rightarrow> error + (nat \<times> nat) \<times> (nat \<times> nat)" where
  "stored_resolution call =
     (case tifffile_rational (fst (tiff_resolution call)) of
        Inl e \<Rightarrow> Inl e
      | Inr x \<Rightarrow>
          (case tifffile_rational (snd (tiff_resolution call)) of
             Inl e \<Rightarrow> Inl e
           | Inr y \<Rightarrow> Inr (x, y)))"

text \<open>
  The library functions \<^verbatim>\<open>write\<close> calls, as parameters: \<^verbatim>\<open>psdtags.overlay\<close>,
  the method \<^verbatim>\<open>tifftag\<close> of the image source data, \<^verbatim>\<open>imagecodecs.cms_profile\<close>
  and \<^verbatim>\<open>tifffile.imwrite\<close>. Each of them may raise; \<open>imwrite\<close> returns nothing, so
  its result is the error it raised, if any.
\<close>

record libs =
  overlay :: "(ndarray \<times> offset) list \<Rightarrow> (nat \<times> nat) option \<Rightarrow> error + ndarray"
  tifftag :: "TiffImageSourceData \<Rightarrow> error + extratag"
  cms_profile :: "string \<Rightarrow> error + uint8 list"
  imwrite :: "imwrite_call \<Rightarrow> error option"

text \<open>
  \<^verbatim>\<open>write(self, filepath)\<close>, named \<open>CSPSTiff_write\<close> here. It reads the store,
  assigns to the shared dictionary and calls the libraries. The model takes the dictionary as it is before the call and
  returns it as it is when the call ends, by return or by exception, with the outcome:
  the error raised, or the file written.
\<close>

definition CSPSTiff_write ::
  "libs \<Rightarrow> params_dict \<Rightarrow> CSPSTiff \<Rightarrow> string \<Rightarrow> params_dict \<times> (error + imwrite_call)" where
  "CSPSTiff_write L d self filepath =
     (if length (layers self) = 0 then (d, Inl (Exception ''not enough layers''))
      else
        (case prep_layers self of
          Inl e \<Rightarrow> (d, Inl e)
        | Inr ls \<Rightarrow>
            (let ll = PsdLayers LAYER False ls;
                 d1 = AList.update ''layers'' (PyLayers ll) d;
                 image_source_data = TiffImageSourceData d1
             in (case overlay L (layers self) (shape self) of
                  Inl e \<Rightarrow> (d1, Inl e)
                | Inr composite \<Rightarrow>
                (case tifftag L image_source_data of
                  Inl e \<Rightarrow> (d1, Inl e)
                | Inr isd_tag \<Rightarrow>
                (case cms_profile L ''srgb'' of
                  Inl e \<Rightarrow> (d1, Inl e)
                | Inr profile \<Rightarrow>
                    (let call = \<lparr>tiff_file = filepath,
                                 tiff_data = composite,
                                 tiff_photometric = ''rgb'',
                                 tiff_compression = ''adobe_deflate'',
                                 tiff_resolution = ((720000, 10000), (720000, 10000)),
                                 tiff_resolutionunit = ''inch'',
                                 tiff_metadata = None,
                                 tiff_extratags = [isd_tag, (34675, 7, None, profile, True)]\<rparr>
                     in (case imwrite L call of
                          Some e \<Rightarrow> (d1, Inl e)
                        | None \<Rightarrow> (AList.update ''layers'' PyNone d1, Inr call)))))))))"

section \<open>Stand-ins for the libraries\<close>

text \<open>
  To run the model on concrete inputs: an overlay that returns a zero canvas of the
  given shape, an image source data tag and a colour profile without bytes, and an
  \<open>imwrite\<close> that raises on the empty path only.
\<close>

definition stub_libs :: libs where
  "stub_libs =
     \<lparr>overlay = (\<lambda>ls sh. case sh of
                   None \<Rightarrow> Inl (LibraryError ''no shape'')
                 | Some (h, w) \<Rightarrow> Inr (np_zeros (h, w, 4))),
      tifftag = (\<lambda>isd. Inr (37724, 7, None, [], True)),
      cms_profile = (\<lambda>n. Inr []),
      imwrite = (\<lambda>call. if tiff_file call = [] then Some (LibraryError ''no such file'') else None)\<rparr>"


text \<open>Small images: one RGB pixel, one RGBA pixel, a two-pixel RGBA row, a two-channel pixel.\<close>

definition rgb_1x1 :: ndarray where
  "rgb_1x1 = \<lparr>nd_shape = (1, 1, 3), nd_data = [[[10, 20, 30]]]\<rparr>"

definition rgba_1x1 :: ndarray where
  "rgba_1x1 = \<lparr>nd_shape = (1, 1, 4), nd_data = [[[1, 2, 3, 255]]]\<rparr>"

definition rgba_1x2 :: ndarray where
  "rgba_1x2 = \<lparr>nd_shape = (1, 2, 4), nd_data = [[[1, 2, 3, 4], [5, 6, 7, 8]]]\<rparr>"

definition ga_1x1 :: ndarray where
  "ga_1x1 = \<lparr>nd_shape = (1, 1, 2), nd_data = [[[9, 200]]]\<rparr>"

section \<open>Facts about the RGBA conversion\<close>

lemma map2_replicate_left:
  "length xs = n \<Longrightarrow> map2 g (replicate n r) xs = map (g r) xs"
  by (induction xs arbitrary: n) auto

lemma rgba_pixel:
  "length s = 3 \<Longrightarrow> (take 3 s @ drop 3 (replicate 4 (0::uint8)))[3 := v] = s @ [v]"
  by (simp add: numeral_eq_Suc list_update_append)

lemma rgba_row:
  assumes "length row = w" and "list_all (\<lambda>px. length px = 3) row"
  shows "map (\<lambda>px. px[3 := v])
           (map2 (\<lambda>d s. take 3 s @ drop 3 d) (replicate w (replicate 4 (0::uint8))) row)
         = map (\<lambda>px. px @ [v]) row"
proof -
  have "map2 (\<lambda>d s. take 3 s @ drop 3 d) (replicate w (replicate 4 (0::uint8))) row
        = map (\<lambda>s. take 3 s @ drop 3 (replicate 4 (0::uint8))) row"
    using assms(1) by (rule map2_replicate_left)
  moreover have "map (\<lambda>px. px[3 := v]) (map (\<lambda>s. take 3 s @ drop 3 (replicate 4 (0::uint8))) row)
                 = map (\<lambda>px. px @ [v]) row"
  proof -
    have "map (\<lambda>px. px[3 := v]) (map (\<lambda>s. take 3 s @ drop 3 (replicate 4 (0::uint8))) row)
          = map (\<lambda>s. (take 3 s @ drop 3 (replicate 4 (0::uint8)))[3 := v]) row"
      by (simp only: map_map o_def)
    also have "\<dots> = map (\<lambda>px. px @ [v]) row"
    proof (rule map_cong [OF refl])
      fix px assume "px \<in> set row"
      then have "length px = 3"
        using assms(2) by (simp add: list_all_iff)
      then show "(take 3 px @ drop 3 (replicate 4 (0::uint8)))[3 := v] = px @ [v]"
        by (rule rgba_pixel)
    qed
    finally show ?thesis .
  qed
  ultimately show ?thesis by (simp only:)
qed

lemma rgba_image_data:
  assumes "wf_ndarray img" and "shape2 img = 3"
  shows "nd_data (rgba_image img) = map (map (\<lambda>px. px @ [alpha_value])) (nd_data img)"
proof -
  let ?z = "replicate (shape1 img) (replicate 4 (0::uint8))"
  let ?f = "map2 (\<lambda>d s. take 3 s @ drop 3 d)"
  have len: "length (nd_data img) = shape0 img"
    using assms(1) by (simp add: wf_ndarray_def)
  have rows: "\<forall>row \<in> set (nd_data img). length row = shape1 img \<and> list_all (\<lambda>px. length px = 3) row"
    using assms by (simp add: wf_ndarray_def list_all_iff)
  have "nd_data (rgba_image img)
        = map (map (\<lambda>px. px[3 := alpha_value])) (map2 ?f (replicate (shape0 img) ?z) (nd_data img))"
    by (simp add: rgba_image_def setitem_alpha_def setitem_rgb_def np_zeros_def)
  also have "map2 ?f (replicate (shape0 img) ?z) (nd_data img) = map (?f ?z) (nd_data img)"
    using len by (rule map2_replicate_left)
  also have "map (map (\<lambda>px. px[3 := alpha_value])) (map (?f ?z) (nd_data img))
             = map (\<lambda>row. map (\<lambda>px. px[3 := alpha_value]) (?f ?z row)) (nd_data img)"
    by (simp only: map_map o_def)
  also have "\<dots> = map (map (\<lambda>px. px @ [alpha_value])) (nd_data img)"
  proof (rule map_cong [OF refl])
    fix row assume "row \<in> set (nd_data img)"
    with rows have "length row = shape1 img" and "list_all (\<lambda>px. length px = 3) row"
      by blast+
    then show "map (\<lambda>px. px[3 := alpha_value]) (?f ?z row) = map (\<lambda>px. px @ [alpha_value]) row"
      by (rule rgba_row)
  qed
  finally show ?thesis .
qed

lemma rgba_image_shape: "nd_shape (rgba_image img) = (shape0 img, shape1 img, 4)"
  by (simp add: rgba_image_def setitem_alpha_def setitem_rgb_def np_zeros_def)

lemma rgba_image_hw: "shape_hw (rgba_image img) = shape_hw img"
  by (simp add: shape_hw_def shape0_def shape1_def rgba_image_shape)

lemma rgba_image_wf:
  assumes "wf_ndarray img" and "shape2 img = 3"
  shows "wf_ndarray (rgba_image img)"
  using assms
  by (simp add: wf_ndarray_def rgba_image_data shape0_def shape1_def shape2_def rgba_image_shape
      list_all_iff)

lemma rgba_image_samples:
  assumes "wf_ndarray img" and "shape2 img = 3" and "i < shape0 img" and "j < shape1 img"
  shows "getitem (rgba_image img) i j 3 = alpha_value"
    and "k < 3 \<Longrightarrow> getitem (rgba_image img) i j k = getitem img i j k"
proof -
  have i: "i < length (nd_data img)"
    using assms by (simp add: wf_ndarray_def)
  then have row: "nd_data img ! i \<in> set (nd_data img)" by simp
  then have j: "j < length (nd_data img ! i)"
    using assms by (simp add: wf_ndarray_def list_all_iff)
  then have "nd_data img ! i ! j \<in> set (nd_data img ! i)" by simp
  moreover have "\<forall>row \<in> set (nd_data img). \<forall>px \<in> set row. length px = 3"
    using assms by (simp add: wf_ndarray_def list_all_iff)
  ultimately have px: "length (nd_data img ! i ! j) = 3"
    using row by blast
  have "nd_data (rgba_image img) ! i ! j = nd_data img ! i ! j @ [alpha_value]"
    using assms(1,2) i j by (simp add: rgba_image_data)
  then show "getitem (rgba_image img) i j 3 = alpha_value"
    and "k < 3 \<Longrightarrow> getitem (rgba_image img) i j k = getitem img i j k"
    using px by (simp_all add: getitem_def nth_append)
qed

section \<open>Facts about \<open>add_layer\<close>\<close>

lemma channel_step_hw: "shape_hw (fst (channel_step img)) = shape_hw img"
  by (simp add: channel_step_def rgba_image_hw)

lemma channel_step_other: "shape2 img \<noteq> 3 \<Longrightarrow> channel_step img = (img, [])"
  by (simp add: channel_step_def)

lemma channel_step_three: "shape2 img = 3 \<Longrightarrow> channel_step img = (rgba_image img, [channels_notice])"
  by (simp add: channel_step_def)

lemma add_layer_layers:
  "layers (fst (add_layer self img offset)) = layers self @ [(fst (channel_step img), offset)]"
  by (simp add: add_layer_def split: prod.splits)

lemma add_layer_shape:
  "shape (fst (add_layer self img offset)) =
     (case shape self of None \<Rightarrow> Some (shape_hw img) | Some sh \<Rightarrow> Some sh)"
  using channel_step_hw [of img]
  by (auto simp: add_layer_def shape_step_def split: prod.splits option.splits if_splits)

lemma add_layer_out:
  "snd (add_layer self img offset) =
     snd (channel_step img) @ snd (shape_step (shape self) (fst (channel_step img)))"
  by (simp add: add_layer_def split: prod.splits)

lemma add_layers_shape:
  "shape self = Some sh \<Longrightarrow> shape (fst (add_layers self calls)) = Some sh"
proof (induction calls arbitrary: self)
  case Nil
  then show ?case by simp
next
  case (Cons c calls)
  obtain img offset where c: "c = (img, offset)" by (cases c)
  have "shape (fst (add_layer self img offset)) = Some sh"
    using Cons.prems by (simp add: add_layer_shape)
  then have "shape (fst (add_layers (fst (add_layer self img offset)) calls)) = Some sh"
    by (rule Cons.IH)
  then show ?case
    by (simp add: c case_prod_beta)
qed

lemma add_layers_layers:
  "layers (fst (add_layers self calls)) =
     layers self @ map (\<lambda>c. (fst (channel_step (fst c)), snd c)) calls"
proof (induction calls arbitrary: self)
  case Nil
  then show ?case by simp
next
  case (Cons c calls)
  obtain img offset where c: "c = (img, offset)" by (cases c)
  show ?case
    using Cons.IH [of "fst (add_layer self img offset)"]
    by (simp add: c add_layer_layers case_prod_beta)
qed

lemma notices_differ: "channels_notice \<noteq> shape_notice hw sh"
  by (simp add: channels_notice_def shape_notice_def)

section \<open>The claims about \<open>add_layer\<close>\<close>

text \<open>
  C2. An image whose third dimension is exactly 3 is stored as a four-channel array:
  the stored entry is the RGBA image built from it, of shape (height, width, 4), whose
  alpha sample is 128 at every pixel and whose first three samples are those of the
  input at every pixel. The call prints the notice about the three channels first and
  goes on: the entry is appended to the layers of the store and the canvas step runs.
\<close>

theorem add_layer_three_channels:
  assumes "wf_ndarray img" and "shape2 img = 3"
  shows "layers (fst (add_layer self img offset)) = layers self @ [(rgba_image img, offset)]
         \<and> nd_shape (rgba_image img) = (shape0 img, shape1 img, 4)
         \<and> wf_ndarray (rgba_image img)
         \<and> (\<forall>i < shape0 img. \<forall>j < shape1 img.
               getitem (rgba_image img) i j 3 = 128
               \<and> (\<forall>k < 3. getitem (rgba_image img) i j k = getitem img i j k))
         \<and> snd (add_layer self img offset)
             = channels_notice # snd (shape_step (shape self) (rgba_image img))"
proof -
  have "layers (fst (add_layer self img offset)) = layers self @ [(rgba_image img, offset)]"
    using assms(2) by (simp add: add_layer_layers channel_step_three)
  moreover have "\<forall>i < shape0 img. \<forall>j < shape1 img.
               getitem (rgba_image img) i j 3 = 128
               \<and> (\<forall>k < 3. getitem (rgba_image img) i j k = getitem img i j k)"
    using rgba_image_samples [OF assms] by (simp add: alpha_value_def)
  moreover have "snd (add_layer self img offset)
             = channels_notice # snd (shape_step (shape self) (rgba_image img))"
    using assms(2) by (simp add: add_layer_out channel_step_three)
  ultimately show ?thesis
    using assms by (simp add: rgba_image_shape rgba_image_wf)
qed

theorem add_layer_three_channels_witness:
  "wf_ndarray rgb_1x1 \<and> shape2 rgb_1x1 = 3
   \<and> layers (fst (add_layer (CSPSTiff_init None) rgb_1x1 (0, 0)))
       = [(\<lparr>nd_shape = (1, 1, 4), nd_data = [[[10, 20, 30, 128]]]\<rparr>, (0, 0))]
   \<and> getitem (rgba_image rgb_1x1) 0 0 3 = 128
   \<and> getitem (rgba_image rgb_1x1) 0 0 1 = getitem rgb_1x1 0 0 1
   \<and> snd (add_layer (CSPSTiff_init None) rgb_1x1 (0, 0)) = [channels_notice]"
proof -
  have h1: "wf_ndarray rgb_1x1"
    by (simp add: wf_ndarray_def rgb_1x1_def shape0_def shape1_def shape2_def)
  have h2: "shape2 rgb_1x1 = 3"
    by (simp add: rgb_1x1_def shape2_def)
  have v: "rgba_image rgb_1x1 = \<lparr>nd_shape = (1, 1, 4), nd_data = [[[10, 20, 30, 128]]]\<rparr>"
    by (simp add: rgba_image_def setitem_alpha_def setitem_rgb_def np_zeros_def rgb_1x1_def
        shape0_def shape1_def alpha_value_def numeral_eq_Suc)
  have s: "shape0 rgb_1x1 = 1" "shape1 rgb_1x1 = 1"
    by (simp_all add: rgb_1x1_def shape0_def shape1_def)
  note T = add_layer_three_channels [OF h1 h2, of "CSPSTiff_init None" "(0, 0)"]
  from T have a: "layers (fst (add_layer (CSPSTiff_init None) rgb_1x1 (0, 0)))
                  = [(rgba_image rgb_1x1, (0, 0))]"
    by (simp add: CSPSTiff_init_def)
  from T have b: "getitem (rgba_image rgb_1x1) 0 0 3 = 128
                  \<and> getitem (rgba_image rgb_1x1) 0 0 1 = getitem rgb_1x1 0 0 1"
    by (simp add: s)
  from T have c: "snd (add_layer (CSPSTiff_init None) rgb_1x1 (0, 0)) = [channels_notice]"
    by (simp add: CSPSTiff_init_def shape_step_def)
  show ?thesis
    using h1 h2 a b c by (simp add: v)
qed

text \<open>
  C3. When the canvas shape of a store is unset, as it is after construction without a
  shape, \<open>add_layer\<close> sets it to the (height, width) of the layer. When it is set, no
  \<open>add_layer\<close> call and no sequence of calls changes it. A layer whose (height, width)
  differs from the canvas shape is stored as it is after the channel step, with its own
  offset: its height and width are those of the input, an input that does not have
  three channels is stored itself, and the call only prints the shape notice, after
  what the channel step printed.
\<close>

theorem canvas_shape_set_once:
  "(shape self = None \<longrightarrow> shape (fst (add_layer self img offset)) = Some (shape_hw img))
   \<and> (\<forall>sh. shape self = Some sh \<longrightarrow>
          shape (fst (add_layer self img offset)) = Some sh
          \<and> (\<forall>calls. shape (fst (add_layers self calls)) = Some sh)
          \<and> (shape_hw img \<noteq> sh \<longrightarrow>
                layers (fst (add_layer self img offset))
                  = layers self @ [(fst (channel_step img), offset)]
                \<and> shape_hw (fst (channel_step img)) = shape_hw img
                \<and> (shape2 img \<noteq> 3 \<longrightarrow> fst (channel_step img) = img)
                \<and> snd (add_layer self img offset)
                    = snd (channel_step img) @ [shape_notice (shape_hw img) sh]))"
proof -
  have unset: "shape self = None \<longrightarrow> shape (fst (add_layer self img offset)) = Some (shape_hw img)"
    by (simp add: add_layer_shape)
  have kept: "shape (fst (add_layer self img offset)) = Some sh
              \<and> (\<forall>calls. shape (fst (add_layers self calls)) = Some sh)"
    if "shape self = Some sh" for sh
    using that by (simp add: add_layer_shape add_layers_shape)
  have stored: "layers (fst (add_layer self img offset))
                  = layers self @ [(fst (channel_step img), offset)]
                \<and> shape_hw (fst (channel_step img)) = shape_hw img
                \<and> (shape2 img \<noteq> 3 \<longrightarrow> fst (channel_step img) = img)
                \<and> snd (add_layer self img offset)
                    = snd (channel_step img) @ [shape_notice (shape_hw img) sh]"
    if "shape self = Some sh" and "shape_hw img \<noteq> sh" for sh
    using that
    by (simp add: add_layer_layers add_layer_out channel_step_hw channel_step_other shape_step_def)
  show ?thesis
    using unset kept stored by blast
qed

theorem canvas_shape_set_once_witness:
  "shape (CSPSTiff_init None) = None
   \<and> shape (fst (add_layer (CSPSTiff_init None) rgba_1x2 (0, 0))) = Some (1, 2)
   \<and> shape (fst (add_layers (fst (add_layer (CSPSTiff_init None) rgba_1x2 (0, 0)))
                 [(rgba_1x1, (5, 5)), (rgb_1x1, (0, 0))])) = Some (1, 2)
   \<and> layers (fst (add_layer (fst (add_layer (CSPSTiff_init None) rgba_1x2 (0, 0))) rgba_1x1 (5, 5)))
       = [(rgba_1x2, (0, 0)), (rgba_1x1, (5, 5))]
   \<and> snd (add_layer (fst (add_layer (CSPSTiff_init None) rgba_1x2 (0, 0))) rgba_1x1 (5, 5))
       = [''IMG shape is (1, 1), existing shape is (1, 2)'']"
proof -
  let ?s0 = "CSPSTiff_init None"
  let ?s1 = "fst (add_layer ?s0 rgba_1x2 (0, 0))"
  have hw: "shape_hw rgba_1x2 = (1, 2)" "shape_hw rgba_1x1 = (1, 1)"
    by (simp_all add: shape_hw_def shape0_def shape1_def rgba_1x2_def rgba_1x1_def)
  have ch: "shape2 rgba_1x2 \<noteq> 3" "shape2 rgba_1x1 \<noteq> 3"
    by (simp_all add: shape2_def rgba_1x2_def rgba_1x1_def)
  have n: "shape ?s0 = None"
    by (simp add: CSPSTiff_init_def)
  have l0: "layers ?s0 = []"
    by (simp add: CSPSTiff_init_def)
  have a: "shape ?s1 = Some (1, 2)"
    using canvas_shape_set_once [of ?s0 rgba_1x2 "(0, 0)"] n hw by simp
  have l1: "layers ?s1 = [(rgba_1x2, (0, 0))]"
    by (simp add: add_layer_layers l0 channel_step_other ch)
  have msg: "shape_notice (1, 1) (1, 2) = ''IMG shape is (1, 1), existing shape is (1, 2)''"
    by (simp add: shape_notice_def str_tuple_def str_nat.simps [of 1] str_nat.simps [of 2] 
        str_nat.simps [of "Suc 0"] digit_char_def)
  have b: "shape (fst (add_layers ?s1 [(rgba_1x1, (5, 5)), (rgb_1x1, (0, 0))])) = Some (1, 2)"
    using canvas_shape_set_once [of ?s1 rgba_1x1 "(5, 5)"] a by blast
  have "shape_hw rgba_1x1 \<noteq> (1, 2)"
    using hw by simp
  with canvas_shape_set_once [of ?s1 rgba_1x1 "(5, 5)"] a
  have c: "layers (fst (add_layer ?s1 rgba_1x1 (5, 5)))
             = layers ?s1 @ [(fst (channel_step rgba_1x1), (5, 5))]
           \<and> snd (add_layer ?s1 rgba_1x1 (5, 5))
               = snd (channel_step rgba_1x1) @ [shape_notice (shape_hw rgba_1x1) (1, 2)]"
    by blast
  show ?thesis
    using n a b c by (simp add: l1 channel_step_other ch hw msg [simplified])
qed

text \<open>
  C10, as amended. An image whose third dimension is not 3 is appended to the layers
  itself, with its offset: no alpha plane is made, nothing is rejected, and the notice
  about the three channels is not printed. What the call prints is what the canvas step
  prints: nothing when the canvas shape is unset or equal to the (height, width) of the
  image, the shape notice otherwise. Every call, whatever the image, appends exactly
  one entry with the given offset and keeps the entries stored before.
\<close>

theorem add_layer_other_channels:
  "(shape2 img \<noteq> 3 \<longrightarrow>
      layers (fst (add_layer self img offset)) = layers self @ [(img, offset)]
      \<and> channels_notice \<notin> set (snd (add_layer self img offset))
      \<and> snd (add_layer self img offset) = snd (shape_step (shape self) img)
      \<and> (shape self = None \<or> shape self = Some (shape_hw img) \<longrightarrow>
            snd (add_layer self img offset) = []))
   \<and> (\<exists>stored. layers (fst (add_layer self img offset)) = layers self @ [(stored, offset)])"
proof -
  have "channels_notice \<notin> set (snd (shape_step (shape self) img))"
    by (auto simp: shape_step_def notices_differ split: option.splits)
  moreover have "shape self = None \<or> shape self = Some (shape_hw img) \<longrightarrow>
                 snd (shape_step (shape self) img) = []"
    by (auto simp: shape_step_def)
  ultimately show ?thesis
    by (simp add: add_layer_layers add_layer_out channel_step_other)
qed

theorem add_layer_other_channels_witness:
  "shape2 ga_1x1 \<noteq> 3
   \<and> add_layer (CSPSTiff_init None) ga_1x1 (3, - 4)
       = (\<lparr>shape = Some (1, 1), layers = [(ga_1x1, (3, - 4))]\<rparr>, [])"
proof -
  have ch: "shape2 ga_1x1 \<noteq> 3"
    by (simp add: shape2_def ga_1x1_def)
  have hw: "shape_hw ga_1x1 = (1, 1)"
    by (simp add: shape_hw_def shape0_def shape1_def ga_1x1_def)
  have n: "shape (CSPSTiff_init None) = None" and l: "layers (CSPSTiff_init None) = []"
    by (simp_all add: CSPSTiff_init_def)
  note T = add_layer_other_channels [of ga_1x1 "CSPSTiff_init None" "(3, - 4)"]
  from T ch have "layers (fst (add_layer (CSPSTiff_init None) ga_1x1 (3, - 4)))
                  = layers (CSPSTiff_init None) @ [(ga_1x1, (3, - 4))]"
    by blast
  then have "layers (fst (add_layer (CSPSTiff_init None) ga_1x1 (3, - 4))) = [(ga_1x1, (3, - 4))]"
    by (simp add: l)
  moreover from T ch n have "snd (add_layer (CSPSTiff_init None) ga_1x1 (3, - 4)) = []"
    by blast
  moreover have "shape (fst (add_layer (CSPSTiff_init None) ga_1x1 (3, - 4))) = Some (1, 1)"
    by (simp add: add_layer_shape n hw)
  moreover have "CSPSTiff.more (fst (add_layer (CSPSTiff_init None) ga_1x1 (3, - 4))) = ()"
    by simp
  ultimately have "add_layer (CSPSTiff_init None) ga_1x1 (3, - 4)
       = (\<lparr>shape = Some (1, 1), layers = [(ga_1x1, (3, - 4))]\<rparr>, [])"
    by (cases "add_layer (CSPSTiff_init None) ga_1x1 (3, - 4)") auto
  with ch show ?thesis by simp
qed

text \<open>
  C10 as stated promises no diagnostic at all for an image whose third dimension is not
  3. On a store of canvas shape (2, 2), a 1 by 1 image with four channels is appended
  unchanged, and the call prints the shape notice.
\<close>

theorem add_layer_no_diagnostic_counterexample:
  "shape2 rgba_1x1 = 4
   \<and> snd (add_layer (CSPSTiff_init (Some (2, 2))) rgba_1x1 (0, 0))
       = [''IMG shape is (1, 1), existing shape is (2, 2)'']
   \<and> layers (fst (add_layer (CSPSTiff_init (Some (2, 2))) rgba_1x1 (0, 0))) = [(rgba_1x1, (0, 0))]"
  by (simp add: add_layer_def channel_step_def shape_step_def CSPSTiff_init_def rgba_1x1_def
      shape2_def shape_hw_def shape0_def shape1_def shape_notice_def str_tuple_def
      str_nat.simps [of 2] str_nat.simps [of "Suc 0"] digit_char_def)

section \<open>Facts about the layer records\<close>

lemma psd_channel_eq:
  "psd_channel cid layer k =
     (if k < shape2 layer
      then Inr \<lparr>channelid = cid, compression = ZIP_PREDICTED,
                data = map (map (\<lambda>px. px ! k)) (nd_data layer)\<rparr>
      else Inl IndexError)"
  by (simp add: psd_channel_def getitem_channel_def)

lemma new_layer_eq:
  "new_layer layer offset n =
     (if 3 < shape2 layer
      then Inr \<lparr>name = layer_name_of n,
                rectangle = \<lparr>rect_top = fst offset,
                              rect_left = snd offset,
                              rect_bottom = fst offset + int (shape0 layer),
                              rect_right = snd offset + int (shape1 layer)\<rparr>,
                channels =
                  [\<lparr>channelid = TRANSPARENCY_MASK, compression = ZIP_PREDICTED,
                    data = map (map (\<lambda>px. px ! 3)) (nd_data layer)\<rparr>,
                   \<lparr>channelid = CHANNEL0, compression = ZIP_PREDICTED,
                    data = map (map (\<lambda>px. px ! 0)) (nd_data layer)\<rparr>,
                   \<lparr>channelid = CHANNEL1, compression = ZIP_PREDICTED,
                    data = map (map (\<lambda>px. px ! 1)) (nd_data layer)\<rparr>,
                   \<lparr>channelid = CHANNEL2, compression = ZIP_PREDICTED,
                    data = map (map (\<lambda>px. px ! 2)) (nd_data layer)\<rparr>],
                mask = PsdLayerMask,
                opacity = 255,
                blendmode = NORMAL,
                blending_ranges = [],
                clipping = BASE,
                flags = {PHOTOSHOP5, TRANSPARENCY_PROTECTED},
                info = [PsdString UNICODE_LAYER_NAME (layer_name_of n)]\<rparr>
      else Inl IndexError)"
  by (simp add: new_layer_def psd_channel_eq Let_def insert_commute)

lemma prep_loop_spec:
  "prep_loop xs n acc = Inr ls \<Longrightarrow>
     length ls = length acc + length xs
     \<and> take (length acc) ls = acc
     \<and> (\<forall>i < length xs.
           new_layer (fst (xs ! i)) (snd (xs ! i)) (n + i) = Inr (ls ! (length acc + i)))"
proof (induction xs arbitrary: n acc)
  case Nil
  then show ?case by simp
next
  case (Cons x xs)
  obtain layer offset where x: "x = (layer, offset)" by (cases x)
  from Cons.prems obtain l where
    l: "new_layer layer offset n = Inr l" and
    rest: "prep_loop xs (n + 1) (acc @ [l]) = Inr ls"
    by (auto simp: x split: sum.splits)
  from Cons.IH [OF rest] have
    len: "length ls = length acc + 1 + length xs" and
    tk: "take (length acc + 1) ls = acc @ [l]" and
    nth: "\<forall>i < length xs.
            new_layer (fst (xs ! i)) (snd (xs ! i)) (n + 1 + i) = Inr (ls ! (length acc + 1 + i))"
    by simp_all
  have "take (length acc) (take (length acc + 1) ls) = take (length acc) (acc @ [l])"
    by (simp only: tk)
  then have tk': "take (length acc) ls = acc"
    by simp
  have "(take (length acc + 1) ls) ! length acc = (acc @ [l]) ! length acc"
    by (simp only: tk)
  then have here: "ls ! length acc = l"
    by simp
  have "new_layer (fst ((x # xs) ! i)) (snd ((x # xs) ! i)) (n + i) = Inr (ls ! (length acc + i))"
    if "i < length (x # xs)" for i
  proof (cases i)
    case 0
    then show ?thesis by (simp add: x l here)
  next
    case (Suc j)
    with that nth show ?thesis by simp
  qed
  with len tk' show ?case by simp
qed

lemma prep_loop_total:
  "\<forall>p \<in> set xs. 3 < shape2 (fst p) \<Longrightarrow> \<exists>ls. prep_loop xs n acc = Inr ls"
proof (induction xs arbitrary: n acc)
  case Nil
  then show ?case by simp
next
  case (Cons x xs)
  obtain layer offset where x: "x = (layer, offset)" by (cases x)
  from Cons.prems have "3 < shape2 layer" and "\<forall>p \<in> set xs. 3 < shape2 (fst p)"
    by (simp_all add: x)
  then show ?case
    using Cons.IH by (simp add: x new_layer_eq)
qed


lemma prep_layers_spec:
  assumes "prep_layers self = Inr ls"
  shows "length ls = length (layers self)"
    and "i < length (layers self) \<Longrightarrow>
           new_layer (fst (layers self ! i)) (snd (layers self ! i)) i = Inr (ls ! i)"
  using prep_loop_spec [of "layers self" 0 "[]" ls] assms
  by (simp_all add: prep_layers_def)

lemma prep_layers_record:
  assumes "prep_layers self = Inr ls" and "i < length (layers self)"
  shows "3 < shape2 (fst (layers self ! i))"
    and "ls ! i = \<lparr>name = layer_name_of i,
                rectangle = \<lparr>rect_top = fst (snd (layers self ! i)),
                              rect_left = snd (snd (layers self ! i)),
                              rect_bottom = fst (snd (layers self ! i)) + int (shape0 (fst (layers self ! i))),
                              rect_right = snd (snd (layers self ! i)) + int (shape1 (fst (layers self ! i)))\<rparr>,
                channels =
                  [\<lparr>channelid = TRANSPARENCY_MASK, compression = ZIP_PREDICTED,
                    data = map (map (\<lambda>px. px ! 3)) (nd_data (fst (layers self ! i)))\<rparr>,
                   \<lparr>channelid = CHANNEL0, compression = ZIP_PREDICTED,
                    data = map (map (\<lambda>px. px ! 0)) (nd_data (fst (layers self ! i)))\<rparr>,
                   \<lparr>channelid = CHANNEL1, compression = ZIP_PREDICTED,
                    data = map (map (\<lambda>px. px ! 1)) (nd_data (fst (layers self ! i)))\<rparr>,
                   \<lparr>channelid = CHANNEL2, compression = ZIP_PREDICTED,
                    data = map (map (\<lambda>px. px ! 2)) (nd_data (fst (layers self ! i)))\<rparr>],
                mask = PsdLayerMask,
                opacity = 255,
                blendmode = NORMAL,
                blending_ranges = [],
                clipping = BASE,
                flags = {PHOTOSHOP5, TRANSPARENCY_PROTECTED},
                info = [PsdString UNICODE_LAYER_NAME (layer_name_of i)]\<rparr>"
  using prep_layers_spec(2) [OF assms]
  by (auto simp: new_layer_eq split: if_splits)

section \<open>Facts about writing\<close>

lemma write_success:
  assumes "CSPSTiff_write L d self filepath = (d', Inr f)"
  shows "layers self \<noteq> []
     \<and> (\<exists>ls composite isd_tag profile.
          prep_layers self = Inr ls
          \<and> overlay L (layers self) (shape self) = Inr composite
          \<and> tifftag L (TiffImageSourceData
                (AList.update ''layers'' (PyLayers (PsdLayers LAYER False ls)) d)) = Inr isd_tag
          \<and> cms_profile L ''srgb'' = Inr profile
          \<and> f = \<lparr>tiff_file = filepath,
                  tiff_data = composite,
                  tiff_photometric = ''rgb'',
                  tiff_compression = ''adobe_deflate'',
                  tiff_resolution = ((720000, 10000), (720000, 10000)),
                  tiff_resolutionunit = ''inch'',
                  tiff_metadata = None,
                  tiff_extratags = [isd_tag, (34675, 7, None, profile, True)]\<rparr>
          \<and> imwrite L f = None
          \<and> d' = AList.update ''layers'' PyNone
                   (AList.update ''layers'' (PyLayers (PsdLayers LAYER False ls)) d))"
  using assms
  by (auto simp: CSPSTiff_write_def Let_def split: if_splits sum.splits option.splits)

lemma write_steps:
  assumes "layers self \<noteq> []"
    and "prep_layers self = Inr ls"
    and "overlay L (layers self) (shape self) = Inr composite"
    and "tifftag L (TiffImageSourceData
           (AList.update ''layers'' (PyLayers (PsdLayers LAYER False ls)) d)) = Inr isd_tag"
    and "cms_profile L ''srgb'' = Inr profile"
  shows "CSPSTiff_write L d self filepath =
     (let d1 = AList.update ''layers'' (PyLayers (PsdLayers LAYER False ls)) d;
          call = \<lparr>tiff_file = filepath,
                  tiff_data = composite,
                  tiff_photometric = ''rgb'',
                  tiff_compression = ''adobe_deflate'',
                  tiff_resolution = ((720000, 10000), (720000, 10000)),
                  tiff_resolutionunit = ''inch'',
                  tiff_metadata = None,
                  tiff_extratags = [isd_tag, (34675, 7, None, profile, True)]\<rparr>
      in case imwrite L call of
           Some e \<Rightarrow> (d1, Inl e)
         | None \<Rightarrow> (AList.update ''layers'' PyNone d1, Inr call))"
  using assms by (simp add: CSPSTiff_write_def Let_def)

lemma write_raised:
  assumes "CSPSTiff_write L d self filepath = (d', Inl e)"
    and "layers self \<noteq> []" and "prep_layers self = Inr ls"
  shows "d' = AList.update ''layers'' (PyLayers (PsdLayers LAYER False ls)) d"
  using assms
  by (auto simp: CSPSTiff_write_def Let_def split: if_splits sum.splits option.splits)

lemma update_twice: "AList.update k v (AList.update k v' al) = AList.update k v al"
  by (induction al) auto

lemma map_of_update_same: "map_of (AList.update k v al) k = Some v"
  by (simp add: update_conv')

lemma update_present: "map_of al k = Some v \<Longrightarrow> AList.update k v al = al"
  by (induction al) (auto split: if_splits)

section \<open>The claims about the layer records\<close>

text \<open>A store of two layers, used to run the loop: an RGB pixel at (0, 0), then a row of
  two RGBA pixels at (2, -3).\<close>

lemma two_layers:
  "fst (add_layers (CSPSTiff_init None) [(rgb_1x1, (0, 0)), (rgba_1x2, (2, - 3))])
   = \<lparr>shape = Some (1, 1),
      layers = [(\<lparr>nd_shape = (1, 1, 4), nd_data = [[[10, 20, 30, 128]]]\<rparr>, (0, 0)),
                (rgba_1x2, (2, - 3))]\<rparr>"
  by (simp add: add_layer_def channel_step_def shape_step_def CSPSTiff_init_def
      rgba_image_def setitem_alpha_def setitem_rgb_def np_zeros_def alpha_value_def
      rgb_1x1_def rgba_1x2_def shape2_def shape_hw_def shape0_def shape1_def numeral_eq_Suc)

text \<open>
  C4. When \<open>prep_layers\<close> returns its list of records, the list has exactly one record
  per stored layer and the record at position \<open>i\<close> is the record of the layer at
  position \<open>i\<close>: for a layer stored with offset (r, c) and shape (h, w, 4) its rectangle
  is (top, left, bottom, right) = (r, c, r + h, c + w). It does return the list when
  every stored layer has four channels. A write that succeeds passes these records, under
  the key \<open>layers\<close>, to the image source data whose tag is the first extra tag of the
  file.
\<close>

theorem prep_layers_rectangles:
  "(\<forall>ls. prep_layers self = Inr ls \<longrightarrow>
      length ls = length (layers self)
      \<and> (\<forall>i < length (layers self).
            new_layer (fst (layers self ! i)) (snd (layers self ! i)) i = Inr (ls ! i)
            \<and> rectangle (ls ! i)
                = \<lparr>rect_top = fst (snd (layers self ! i)),
                   rect_left = snd (snd (layers self ! i)),
                   rect_bottom = fst (snd (layers self ! i)) + int (shape0 (fst (layers self ! i))),
                   rect_right = snd (snd (layers self ! i)) + int (shape1 (fst (layers self ! i)))\<rparr>))
   \<and> ((\<forall>p \<in> set (layers self). shape2 (fst p) = 4) \<longrightarrow> (\<exists>ls. prep_layers self = Inr ls))
   \<and> (\<forall>L d filepath d' f. CSPSTiff_write L d self filepath = (d', Inr f) \<longrightarrow>
         (\<exists>ls isd_tag. prep_layers self = Inr ls
            \<and> tifftag L (TiffImageSourceData
                  (AList.update ''layers'' (PyLayers (PsdLayers LAYER False ls)) d)) = Inr isd_tag
            \<and> hd (tiff_extratags f) = isd_tag))"
proof -
  have records: "length ls = length (layers self)
      \<and> (\<forall>i < length (layers self).
            new_layer (fst (layers self ! i)) (snd (layers self ! i)) i = Inr (ls ! i)
            \<and> rectangle (ls ! i)
                = \<lparr>rect_top = fst (snd (layers self ! i)),
                   rect_left = snd (snd (layers self ! i)),
                   rect_bottom = fst (snd (layers self ! i)) + int (shape0 (fst (layers self ! i))),
                   rect_right = snd (snd (layers self ! i)) + int (shape1 (fst (layers self ! i)))\<rparr>)"
    if "prep_layers self = Inr ls" for ls
    using prep_layers_spec [OF that] prep_layers_record(2) [OF that]
    by simp
  have total: "\<exists>ls. prep_layers self = Inr ls" if "\<forall>p \<in> set (layers self). shape2 (fst p) = 4"
  proof -
    from that have "\<forall>p \<in> set (layers self). 3 < shape2 (fst p)" by simp
    then show ?thesis
      unfolding prep_layers_def by (rule prep_loop_total)
  qed
  have encode: "\<exists>ls isd_tag. prep_layers self = Inr ls
            \<and> tifftag L (TiffImageSourceData
                  (AList.update ''layers'' (PyLayers (PsdLayers LAYER False ls)) d)) = Inr isd_tag
            \<and> hd (tiff_extratags f) = isd_tag"
    if "CSPSTiff_write L d self filepath = (d', Inr f)" for L d filepath d' f
    using write_success [OF that] by auto
  show ?thesis
    using records total encode by blast
qed

theorem prep_layers_rectangles_witness:
  "map_sum id (map rectangle)
     (prep_layers (fst (add_layers (CSPSTiff_init None) [(rgb_1x1, (0, 0)), (rgba_1x2, (2, - 3))])))
   = Inr [\<lparr>rect_top = 0, rect_left = 0, rect_bottom = 1, rect_right = 1\<rparr>,
          \<lparr>rect_top = 2, rect_left = - 3, rect_bottom = 3, rect_right = - 1\<rparr>]"
proof -
  define s where "s = fst (add_layers (CSPSTiff_init None) [(rgb_1x1, (0, 0)), (rgba_1x2, (2, - 3))])"
  define a where "a = \<lparr>nd_shape = (1, 1, 4), nd_data = [[[10, 20, 30, 128 :: uint8]]]\<rparr>"
  note T = prep_layers_rectangles [of s]
  have ly: "layers s = [(a, (0, 0)), (rgba_1x2, (2, - 3))]"
    unfolding s_def a_def two_layers by simp
  have sh: "shape2 a = 4" "shape0 a = 1" "shape1 a = 1"
    "shape2 rgba_1x2 = 4" "shape0 rgba_1x2 = 1" "shape1 rgba_1x2 = 2"
    by (simp_all add: a_def rgba_1x2_def shape0_def shape1_def shape2_def)
  have "\<forall>p \<in> set (layers s). shape2 (fst p) = 4"
    by (simp add: ly sh)
  with T obtain ls where ls: "prep_layers s = Inr ls"
    by blast
  with T have len: "length ls = length (layers s)"
    and r: "\<forall>i < length (layers s). rectangle (ls ! i)
                = \<lparr>rect_top = fst (snd (layers s ! i)),
                   rect_left = snd (snd (layers s ! i)),
                   rect_bottom = fst (snd (layers s ! i)) + int (shape0 (fst (layers s ! i))),
                   rect_right = snd (snd (layers s ! i)) + int (shape1 (fst (layers s ! i)))\<rparr>"
    by blast+
  from r have r0: "rectangle (ls ! 0) = \<lparr>rect_top = 0, rect_left = 0, rect_bottom = 1, rect_right = 1\<rparr>"
    by (simp add: ly sh)
  from r have r1: "rectangle (ls ! 1) = \<lparr>rect_top = 2, rect_left = - 3, rect_bottom = 3, rect_right = - 1\<rparr>"
    by (simp add: ly sh)
  from len obtain x y where xy: "ls = [x, y]"
    by (auto simp: ly length_Suc_conv numeral_2_eq_2)
  have "map_sum id (map rectangle) (prep_layers s)
        = Inr [\<lparr>rect_top = 0, rect_left = 0, rect_bottom = 1, rect_right = 1\<rparr>,
               \<lparr>rect_top = 2, rect_left = - 3, rect_bottom = 3, rect_right = - 1\<rparr>]"
    using r0 r1 by (simp add: ls xy)
  then show ?thesis
    by (simp only: s_def)
qed

text \<open>The names of some positions, in full.\<close>

lemma layer_names_small:
  "layer_name_of 0 = ''layer_0''" "layer_name_of 1 = ''layer_1''"
  "layer_name_of 12 = ''layer_12''" "layer_name_of 305 = ''layer_305''"
  by (simp_all add: layer_name_of_def str_nat.simps [of 0] str_nat.simps [of 1] str_nat.simps [of 12]
      str_nat.simps [of 305] str_nat.simps [of 30] str_nat.simps [of 3] str_nat.simps [of "Suc 0"]
      digit_char_def)

text \<open>
  C5. In a store built by a sequence of \<open>add_layer\<close> calls on a new store, when
  \<open>prep_layers\<close> returns its records there is one record per call, and the record at
  position \<open>N\<close> is the record of the layer of call \<open>N\<close> (counted from 0), under the
  name \<open>layer_N\<close>, with \<open>N\<close> in decimal; the same name is its Unicode layer name. The
  name depends on the position only: not on the image, not on the offset, not on what
  earlier calls printed.
\<close>

theorem layer_names_positional:
  assumes "fst (add_layers (CSPSTiff_init sh) calls) = self"
    and "prep_layers self = Inr ls"
    and "N < length calls"
  shows "length ls = length calls
     \<and> name (ls ! N) = ''layer_'' @ str_nat N
     \<and> info (ls ! N) = [PsdString UNICODE_LAYER_NAME (''layer_'' @ str_nat N)]
     \<and> layers self ! N = (fst (channel_step (fst (calls ! N))), snd (calls ! N))
     \<and> new_layer (fst (channel_step (fst (calls ! N)))) (snd (calls ! N)) N = Inr (ls ! N)"
proof -
  have ly: "layers self = map (\<lambda>c. (fst (channel_step (fst c)), snd c)) calls"
    using add_layers_layers [of "CSPSTiff_init sh" calls] assms(1)
    by (simp add: CSPSTiff_init_def)
  then have N: "N < length (layers self)"
    and at: "layers self ! N = (fst (channel_step (fst (calls ! N))), snd (calls ! N))"
    using assms(3) by simp_all
  have "length ls = length calls"
    using prep_layers_spec(1) [OF assms(2)] ly by simp
  moreover have "new_layer (fst (channel_step (fst (calls ! N)))) (snd (calls ! N)) N = Inr (ls ! N)"
    using prep_layers_spec(2) [OF assms(2) N] at by simp
  moreover have "name (ls ! N) = ''layer_'' @ str_nat N"
    and "info (ls ! N) = [PsdString UNICODE_LAYER_NAME (''layer_'' @ str_nat N)]"
    using prep_layers_record(2) [OF assms(2) N] by (simp_all add: layer_name_of_def)
  ultimately show ?thesis
    using at by simp
qed

theorem layer_names_positional_witness:
  "map_sum id (map name)
     (prep_layers (fst (add_layers (CSPSTiff_init None) [(rgb_1x1, (0, 0)), (rgba_1x2, (2, - 3))])))
   = Inr [''layer_0'', ''layer_1'']"
proof -
  define calls where "calls = [(rgb_1x1, (0, 0) :: offset), (rgba_1x2, (2, - 3))]"
  define s where "s = fst (add_layers (CSPSTiff_init None) calls)"
  define a where "a = \<lparr>nd_shape = (1, 1, 4), nd_data = [[[10, 20, 30, 128 :: uint8]]]\<rparr>"
  have ly: "layers s = [(a, (0, 0)), (rgba_1x2, (2, - 3))]"
    unfolding s_def a_def calls_def two_layers by simp
  have "\<forall>p \<in> set (layers s). 3 < shape2 (fst p)"
    by (simp add: ly a_def rgba_1x2_def shape2_def)
  then obtain ls where ls: "prep_layers s = Inr ls"
    unfolding prep_layers_def using prep_loop_total by blast
  have s: "fst (add_layers (CSPSTiff_init None) calls) = s"
    by (simp only: s_def)
  have n0: "name (ls ! 0) = ''layer_0''" and len: "length ls = length calls"
    using layer_names_positional [OF s ls, of 0]
    by (simp_all add: calls_def str_nat.simps [of 0] digit_char_def)
  have n1: "name (ls ! 1) = ''layer_1''"
    using layer_names_positional [OF s ls, of 1]
    by (simp add: calls_def str_nat.simps [of 1] str_nat.simps [of "Suc 0"] digit_char_def)
  from len obtain x y where xy: "ls = [x, y]"
    by (auto simp: calls_def length_Suc_conv numeral_2_eq_2)
  have "map_sum id (map name) (prep_layers s) = Inr [''layer_0'', ''layer_1'']"
    using n0 n1 by (simp add: ls xy)
  then show ?thesis
    by (simp only: s_def calls_def)
qed

text \<open>
  C6. Every record that \<open>prep_layers\<close> returns has blend mode \<open>NORMAL\<close>, opacity 255,
  clipping \<open>BASE\<close> and the flags \<open>PHOTOSHOP5\<close> and \<open>TRANSPARENCY_PROTECTED\<close>. It holds
  exactly four channels, in this order: the transparency mask, which is plane 3 of the
  layer, then channels 0, 1 and 2, which are planes 0, 1 and 2; each of them has the
  compression \<open>ZIP_PREDICTED\<close>.
\<close>

theorem layer_record_constants:
  assumes "prep_layers self = Inr ls" and "i < length ls"
  shows "blendmode (ls ! i) = NORMAL
     \<and> opacity (ls ! i) = 255
     \<and> clipping (ls ! i) = BASE
     \<and> TRANSPARENCY_PROTECTED \<in> flags (ls ! i)
     \<and> flags (ls ! i) = {PHOTOSHOP5, TRANSPARENCY_PROTECTED}
     \<and> length (channels (ls ! i)) = 4
     \<and> map channelid (channels (ls ! i)) = [TRANSPARENCY_MASK, CHANNEL0, CHANNEL1, CHANNEL2]
     \<and> map compression (channels (ls ! i))
         = [ZIP_PREDICTED, ZIP_PREDICTED, ZIP_PREDICTED, ZIP_PREDICTED]
     \<and> map (\<lambda>c. Inr (data c)) (channels (ls ! i))
         = map (getitem_channel (fst (layers self ! i))) [3, 0, 1, 2]"
proof -
  have i: "i < length (layers self)"
    using prep_layers_spec(1) [OF assms(1)] assms(2) by simp
  note r = prep_layers_record [OF assms(1) i]
  have "map (\<lambda>c. Inr (data c)) (channels (ls ! i))
         = map (getitem_channel (fst (layers self ! i))) [3, 0, 1, 2]"
    using r(1) by (simp add: r(2) getitem_channel_def)
  then show ?thesis
    by (simp add: r(2))
qed

theorem layer_record_constants_witness:
  "(case prep_layers (fst (add_layers (CSPSTiff_init None)
                        [(rgb_1x1, (0, 0)), (rgba_1x2, (2, - 3))])) of
      Inl e \<Rightarrow> False
    | Inr ls \<Rightarrow>
        blendmode (ls ! 1) = NORMAL
        \<and> opacity (ls ! 1) = 255
        \<and> clipping (ls ! 1) = BASE
        \<and> TRANSPARENCY_PROTECTED \<in> flags (ls ! 1)
        \<and> map channelid (channels (ls ! 1)) = [TRANSPARENCY_MASK, CHANNEL0, CHANNEL1, CHANNEL2]
        \<and> map compression (channels (ls ! 1))
            = [ZIP_PREDICTED, ZIP_PREDICTED, ZIP_PREDICTED, ZIP_PREDICTED]
        \<and> map (\<lambda>c. Inr (data c)) (channels (ls ! 1))
            = [Inr [[4, 8]], Inr [[1, 5]], Inr [[2, 6]], Inr [[3, 7 :: uint8]] :: error + uint8 list list])"
proof -
  define s where "s = fst (add_layers (CSPSTiff_init None) [(rgb_1x1, (0, 0)), (rgba_1x2, (2, - 3))])"
  define a where "a = \<lparr>nd_shape = (1, 1, 4), nd_data = [[[10, 20, 30, 128 :: uint8]]]\<rparr>"
  have ly: "layers s = [(a, (0, 0)), (rgba_1x2, (2, - 3))]"
    unfolding s_def a_def two_layers by simp
  have "\<forall>p \<in> set (layers s). 3 < shape2 (fst p)"
    by (simp add: ly a_def rgba_1x2_def shape2_def)
  then obtain ls where ls: "prep_layers s = Inr ls"
    unfolding prep_layers_def using prep_loop_total by blast
  have len: "1 < length ls"
    using prep_layers_spec(1) [OF ls] by (simp add: ly)
  have planes: "map (getitem_channel (fst (layers s ! 1))) [3, 0, 1, 2]
       = [Inr [[4, 8]], Inr [[1, 5]], Inr [[2, 6]], Inr [[3, 7]]]"
    by (simp add: ly getitem_channel_def rgba_1x2_def shape2_def)
  note T = layer_record_constants [OF ls len]
  have "blendmode (ls ! 1) = NORMAL
        \<and> opacity (ls ! 1) = 255
        \<and> clipping (ls ! 1) = BASE
        \<and> TRANSPARENCY_PROTECTED \<in> flags (ls ! 1)
        \<and> map channelid (channels (ls ! 1)) = [TRANSPARENCY_MASK, CHANNEL0, CHANNEL1, CHANNEL2]
        \<and> map compression (channels (ls ! 1))
            = [ZIP_PREDICTED, ZIP_PREDICTED, ZIP_PREDICTED, ZIP_PREDICTED]
        \<and> map (\<lambda>c. Inr (data c)) (channels (ls ! 1))
            = [Inr [[4, 8]], Inr [[1, 5]], Inr [[2, 6]], Inr [[3, 7 :: uint8]] :: error + uint8 list list]"
    using T planes by (simp only:) simp
  then have "(case prep_layers s of
      Inl e \<Rightarrow> False
    | Inr ls \<Rightarrow>
        blendmode (ls ! 1) = NORMAL
        \<and> opacity (ls ! 1) = 255
        \<and> clipping (ls ! 1) = BASE
        \<and> TRANSPARENCY_PROTECTED \<in> flags (ls ! 1)
        \<and> map channelid (channels (ls ! 1)) = [TRANSPARENCY_MASK, CHANNEL0, CHANNEL1, CHANNEL2]
        \<and> map compression (channels (ls ! 1))
            = [ZIP_PREDICTED, ZIP_PREDICTED, ZIP_PREDICTED, ZIP_PREDICTED]
        \<and> map (\<lambda>c. Inr (data c)) (channels (ls ! 1))
            = [Inr [[4, 8]], Inr [[1, 5]], Inr [[2, 6]], Inr [[3, 7 :: uint8]] :: error + uint8 list list])"
    by (simp only: ls sum.case)
  then show ?thesis
    by (simp only: s_def)
qed

section \<open>The claims about writing\<close>

text \<open>A store of one RGBA pixel, and what \<open>CSPSTiff_write\<close> does on it with the stand-in
  libraries and the dictionary of the module: it raises on the empty path, where the
  stand-in \<open>imwrite\<close> raises, and writes the file otherwise.\<close>

lemma one_layer:
  "fst (add_layer (CSPSTiff_init None) rgba_1x1 (0, 0))
   = \<lparr>shape = Some (1, 1), layers = [(rgba_1x1, (0, 0))]\<rparr>"
  by (simp add: add_layer_def channel_step_def shape_step_def CSPSTiff_init_def
      rgba_1x1_def shape2_def shape_hw_def shape0_def shape1_def)

lemma one_layer_records:
  "\<exists>ls. prep_layers (fst (add_layer (CSPSTiff_init None) rgba_1x1 (0, 0))) = Inr ls"
proof -
  have "\<forall>p \<in> set [(rgba_1x1, (0, 0) :: offset)]. 3 < shape2 (fst p)"
    by (simp add: rgba_1x1_def shape2_def)
  then have "\<exists>ls. prep_loop [(rgba_1x1, (0, 0))] 0 [] = Inr ls"
    by (rule prep_loop_total)
  then show ?thesis
    by (simp only: one_layer prep_layers_def CSPSTiff.select_convs)
qed

lemma params_dict_layers: "map_of TIFFIMAGESOURCEDATA_PARAMS_DICT ''layers'' = Some PyNone"
  by (simp add: TIFFIMAGESOURCEDATA_PARAMS_DICT_def)

lemma stub_write:
  assumes "prep_layers (fst (add_layer (CSPSTiff_init None) rgba_1x1 (0, 0))) = Inr ls"
  shows "CSPSTiff_write stub_libs TIFFIMAGESOURCEDATA_PARAMS_DICT
           (fst (add_layer (CSPSTiff_init None) rgba_1x1 (0, 0))) filepath
         = (if filepath = []
            then (AList.update ''layers'' (PyLayers (PsdLayers LAYER False ls))
                    TIFFIMAGESOURCEDATA_PARAMS_DICT,
                  Inl (LibraryError ''no such file''))
            else (TIFFIMAGESOURCEDATA_PARAMS_DICT,
                  Inr \<lparr>tiff_file = filepath,
                       tiff_data = np_zeros (1, 1, 4),
                       tiff_photometric = ''rgb'',
                       tiff_compression = ''adobe_deflate'',
                       tiff_resolution = ((720000, 10000), (720000, 10000)),
                       tiff_resolutionunit = ''inch'',
                       tiff_metadata = None,
                       tiff_extratags = [(37724, 7, None, [], True), (34675, 7, None, [], True)]\<rparr>))"
proof -
  let ?s = "fst (add_layer (CSPSTiff_init None) rgba_1x1 (0, 0))"
  have ne: "layers ?s \<noteq> []"
    by (simp add: one_layer)
  have ov: "overlay stub_libs (layers ?s) (shape ?s) = Inr (np_zeros (1, 1, 4))"
    by (simp add: one_layer stub_libs_def)
  have tg: "tifftag stub_libs (TiffImageSourceData
              (AList.update ''layers'' (PyLayers (PsdLayers LAYER False ls))
                 TIFFIMAGESOURCEDATA_PARAMS_DICT)) = Inr (37724, 7, None, [], True)"
    by (simp add: stub_libs_def)
  have cms: "cms_profile stub_libs ''srgb'' = Inr []"
    by (simp add: stub_libs_def)
  have restore: "AList.update ''layers'' PyNone
                (AList.update ''layers'' (PyLayers (PsdLayers LAYER False ls))
                   TIFFIMAGESOURCEDATA_PARAMS_DICT) = TIFFIMAGESOURCEDATA_PARAMS_DICT"
    by (simp only: update_twice update_present [OF params_dict_layers])
  show ?thesis
    unfolding write_steps [OF ne assms ov tg cms]
    by (simp add: Let_def restore update_present [OF params_dict_layers] stub_libs_def)
qed

text \<open>
  C1. On a store without layers, as every store is on which \<open>add_layer\<close> was never
  called, \<open>write\<close> raises the exception of line 141, \<^verbatim>\<open>Exception("not enough layers")\<close>,
  which the specification calls EmptyInputError, whatever the path and whatever the
  libraries would do. The check comes first: the outcome is the error, so no file is
  written, and the shared dictionary is as it was.
\<close>

theorem write_empty_raises:
  assumes "layers self = []"
  shows "CSPSTiff_write L d self filepath = (d, Inl (Exception ''not enough layers''))"
  using assms by (simp add: CSPSTiff_write_def)

theorem write_empty_raises_witness:
  "layers (CSPSTiff_init (Some (4, 4))) = []
   \<and> CSPSTiff_write stub_libs TIFFIMAGESOURCEDATA_PARAMS_DICT (CSPSTiff_init (Some (4, 4))) ''out.tif''
       = (TIFFIMAGESOURCEDATA_PARAMS_DICT, Inl (Exception ''not enough layers''))"
proof -
  have h: "layers (CSPSTiff_init (Some (4, 4))) = []"
    by (simp add: CSPSTiff_init_def)
  show ?thesis
    using h write_empty_raises [OF h, of stub_libs TIFFIMAGESOURCEDATA_PARAMS_DICT "''out.tif''"]
    by simp
qed

text \<open>
  C9. \<open>write\<close> assigns the records of its layers to the entry \<open>layers\<close> of the shared
  dictionary. When the write succeeds the entry is \<open>None\<close> afterwards, and a dictionary
  whose entry was \<open>None\<close> before is as it was. When \<open>imwrite\<close> raises, after the other
  library calls have returned, \<open>write\<close> raises that error and the dictionary is left with
  the assignment. More generally, whenever a write on a store with layers whose records
  were built ends by an exception, the entry holds these records and is not \<open>None\<close>, so
  a dictionary whose entry was \<open>None\<close> before has changed.
\<close>

theorem write_shared_dictionary:
  "(\<forall>d' f. CSPSTiff_write L d self filepath = (d', Inr f) \<longrightarrow>
       map_of d' ''layers'' = Some PyNone
       \<and> (map_of d ''layers'' = Some PyNone \<longrightarrow> d' = d))
   \<and> (\<forall>ls composite isd_tag profile e.
         layers self \<noteq> []
         \<and> prep_layers self = Inr ls
         \<and> overlay L (layers self) (shape self) = Inr composite
         \<and> tifftag L (TiffImageSourceData
               (AList.update ''layers'' (PyLayers (PsdLayers LAYER False ls)) d)) = Inr isd_tag
         \<and> cms_profile L ''srgb'' = Inr profile
         \<and> imwrite L \<lparr>tiff_file = filepath,
                       tiff_data = composite,
                       tiff_photometric = ''rgb'',
                       tiff_compression = ''adobe_deflate'',
                       tiff_resolution = ((720000, 10000), (720000, 10000)),
                       tiff_resolutionunit = ''inch'',
                       tiff_metadata = None,
                       tiff_extratags = [isd_tag, (34675, 7, None, profile, True)]\<rparr> = Some e
         \<longrightarrow> CSPSTiff_write L d self filepath
               = (AList.update ''layers'' (PyLayers (PsdLayers LAYER False ls)) d, Inl e))
   \<and> (\<forall>d' e ls. CSPSTiff_write L d self filepath = (d', Inl e)
         \<and> layers self \<noteq> [] \<and> prep_layers self = Inr ls \<longrightarrow>
         d' = AList.update ''layers'' (PyLayers (PsdLayers LAYER False ls)) d
         \<and> map_of d' ''layers'' = Some (PyLayers (PsdLayers LAYER False ls))
         \<and> map_of d' ''layers'' \<noteq> Some PyNone
         \<and> (map_of d ''layers'' = Some PyNone \<longrightarrow> d' \<noteq> d))"
proof -
  have restored: "map_of d' ''layers'' = Some PyNone
       \<and> (map_of d ''layers'' = Some PyNone \<longrightarrow> d' = d)"
    if "CSPSTiff_write L d self filepath = (d', Inr f)" for d' f
  proof -
    from write_success [OF that] obtain ls where
      d': "d' = AList.update ''layers'' PyNone
                  (AList.update ''layers'' (PyLayers (PsdLayers LAYER False ls)) d)"
      by blast
    then have "d' = AList.update ''layers'' PyNone d"
      by (simp only: update_twice)
    then show ?thesis
      by (simp add: map_of_update_same update_present)
  qed
  have raised: "CSPSTiff_write L d self filepath
               = (AList.update ''layers'' (PyLayers (PsdLayers LAYER False ls)) d, Inl e)"
    if "layers self \<noteq> []" and "prep_layers self = Inr ls"
      and "overlay L (layers self) (shape self) = Inr composite"
      and "tifftag L (TiffImageSourceData
               (AList.update ''layers'' (PyLayers (PsdLayers LAYER False ls)) d)) = Inr isd_tag"
      and "cms_profile L ''srgb'' = Inr profile"
      and "imwrite L \<lparr>tiff_file = filepath,
                       tiff_data = composite,
                       tiff_photometric = ''rgb'',
                       tiff_compression = ''adobe_deflate'',
                       tiff_resolution = ((720000, 10000), (720000, 10000)),
                       tiff_resolutionunit = ''inch'',
                       tiff_metadata = None,
                       tiff_extratags = [isd_tag, (34675, 7, None, profile, True)]\<rparr> = Some e"
    for ls composite isd_tag profile e
    unfolding write_steps [OF that(1-5)] using that(6) by (simp add: Let_def)
  have left: "d' = AList.update ''layers'' (PyLayers (PsdLayers LAYER False ls)) d
         \<and> map_of d' ''layers'' = Some (PyLayers (PsdLayers LAYER False ls))
         \<and> map_of d' ''layers'' \<noteq> Some PyNone
         \<and> (map_of d ''layers'' = Some PyNone \<longrightarrow> d' \<noteq> d)"
    if "CSPSTiff_write L d self filepath = (d', Inl e)"
      and "layers self \<noteq> []" and "prep_layers self = Inr ls" for d' e ls
  proof -
    have "map_of d' ''layers'' = Some (PyLayers (PsdLayers LAYER False ls))"
      using write_raised [OF that] by (simp add: map_of_update_same)
    then show ?thesis
      using write_raised [OF that] by auto
  qed
  show ?thesis
    using restored raised left by blast
qed


theorem write_shared_dictionary_witness:
  "fst (CSPSTiff_write stub_libs TIFFIMAGESOURCEDATA_PARAMS_DICT
          (fst (add_layer (CSPSTiff_init None) rgba_1x1 (0, 0))) ''out.tif'')
     = TIFFIMAGESOURCEDATA_PARAMS_DICT
   \<and> map_of (fst (CSPSTiff_write stub_libs TIFFIMAGESOURCEDATA_PARAMS_DICT
                  (fst (add_layer (CSPSTiff_init None) rgba_1x1 (0, 0))) ''out.tif''))
         ''layers'' = Some PyNone
   \<and> snd (CSPSTiff_write stub_libs TIFFIMAGESOURCEDATA_PARAMS_DICT
            (fst (add_layer (CSPSTiff_init None) rgba_1x1 (0, 0))) [])
       = Inl (LibraryError ''no such file'')
   \<and> (case prep_layers (fst (add_layer (CSPSTiff_init None) rgba_1x1 (0, 0))) of
        Inl e \<Rightarrow> False
      | Inr ls \<Rightarrow>
          map_of (fst (CSPSTiff_write stub_libs TIFFIMAGESOURCEDATA_PARAMS_DICT
                    (fst (add_layer (CSPSTiff_init None) rgba_1x1 (0, 0))) []))
            ''layers'' = Some (PyLayers (PsdLayers LAYER False ls)))"
proof -
  define s where "s = fst (add_layer (CSPSTiff_init None) rgba_1x1 (0, 0))"
  obtain ls where ls: "prep_layers s = Inr ls"
    unfolding s_def using one_layer_records by blast
  have ne: "layers s \<noteq> []"
    by (simp add: s_def one_layer)
  obtain d1 f where ok: "CSPSTiff_write stub_libs TIFFIMAGESOURCEDATA_PARAMS_DICT s ''out.tif'' = (d1, Inr f)"
    using stub_write [OF ls [unfolded s_def], of "''out.tif''"] by (simp add: s_def)
  obtain d2 where bad: "CSPSTiff_write stub_libs TIFFIMAGESOURCEDATA_PARAMS_DICT s []
                        = (d2, Inl (LibraryError ''no such file''))"
    using stub_write [OF ls [unfolded s_def], of "[]"] by (simp add: s_def)
  note T1 = write_shared_dictionary [of stub_libs TIFFIMAGESOURCEDATA_PARAMS_DICT s "''out.tif''"]
  note T2 = write_shared_dictionary [of stub_libs TIFFIMAGESOURCEDATA_PARAMS_DICT s "[]"]
  from T1 ok params_dict_layers
  have a: "d1 = TIFFIMAGESOURCEDATA_PARAMS_DICT" and b: "map_of d1 ''layers'' = Some PyNone"
    by blast+
  from T2 bad ne ls
  have c: "map_of d2 ''layers'' = Some (PyLayers (PsdLayers LAYER False ls))"
    by blast
  have "fst (CSPSTiff_write stub_libs TIFFIMAGESOURCEDATA_PARAMS_DICT s ''out.tif'')
     = TIFFIMAGESOURCEDATA_PARAMS_DICT
   \<and> map_of (fst (CSPSTiff_write stub_libs TIFFIMAGESOURCEDATA_PARAMS_DICT s ''out.tif''))
         ''layers'' = Some PyNone
   \<and> snd (CSPSTiff_write stub_libs TIFFIMAGESOURCEDATA_PARAMS_DICT s [])
       = Inl (LibraryError ''no such file'')
   \<and> (case prep_layers s of
        Inl e \<Rightarrow> False
      | Inr ls \<Rightarrow>
          map_of (fst (CSPSTiff_write stub_libs TIFFIMAGESOURCEDATA_PARAMS_DICT s []))
            ''layers'' = Some (PyLayers (PsdLayers LAYER False ls)))"
    using a b c by (simp only: ok bad ls fst_conv snd_conv sum.case)
  then show ?thesis
    unfolding s_def .
qed

text \<open>The resolution of the code, in lowest terms.\<close>

lemma rational_72: "tifffile_rational (720000, 10000) = Inr (72, 1)"
  by (simp add: tifffile_rational_def)

text \<open>
  C8, as amended. A write that succeeds has produced its file by a call of \<open>imwrite\<close>
  that returned, on the given path, with photometric \<open>rgb\<close>, compression
  \<open>adobe_deflate\<close>, the resolution unit \<open>inch\<close> and no metadata. The resolution is given
  as the rational 720000/10000 on both axes, 72 pixels per inch, and is stored in the
  file in lowest terms, as 72/1. The raster is what \<open>overlay\<close> returned for the layers
  and the canvas shape of the store. There are two extra tags: the tag of the image
  source data built from the dictionary with the records of the layers, then the tag
  34675 of type 7 (undefined), without count, that carries the profile \<open>cms_profile\<close>
  returned for \<open>srgb\<close> and has its last component \<open>True\<close>. Conversely, when the store
  has layers and every library call returns, \<open>imwrite\<close> included, the write succeeds
  with exactly this call.
\<close>

theorem write_container_parameters:
  "(\<forall>d' f. CSPSTiff_write L d self filepath = (d', Inr f) \<longrightarrow>
       imwrite L f = None
       \<and> tiff_file f = filepath
       \<and> tiff_photometric f = ''rgb''
       \<and> tiff_compression f = ''adobe_deflate''
       \<and> tiff_resolution f = ((720000, 10000), (720000, 10000))
       \<and> stored_resolution f = Inr ((72, 1), (72, 1))
       \<and> tiff_resolutionunit f = ''inch''
       \<and> tiff_metadata f = None
       \<and> overlay L (layers self) (shape self) = Inr (tiff_data f)
       \<and> (\<exists>ls isd_tag profile.
             prep_layers self = Inr ls
             \<and> tifftag L (TiffImageSourceData
                   (AList.update ''layers'' (PyLayers (PsdLayers LAYER False ls)) d)) = Inr isd_tag
             \<and> cms_profile L ''srgb'' = Inr profile
             \<and> tiff_extratags f = [isd_tag, (34675, 7, None, profile, True)]))
   \<and> (\<forall>ls composite isd_tag profile.
         layers self \<noteq> []
         \<and> prep_layers self = Inr ls
         \<and> overlay L (layers self) (shape self) = Inr composite
         \<and> tifftag L (TiffImageSourceData
               (AList.update ''layers'' (PyLayers (PsdLayers LAYER False ls)) d)) = Inr isd_tag
         \<and> cms_profile L ''srgb'' = Inr profile
         \<and> imwrite L \<lparr>tiff_file = filepath,
                       tiff_data = composite,
                       tiff_photometric = ''rgb'',
                       tiff_compression = ''adobe_deflate'',
                       tiff_resolution = ((720000, 10000), (720000, 10000)),
                       tiff_resolutionunit = ''inch'',
                       tiff_metadata = None,
                       tiff_extratags = [isd_tag, (34675, 7, None, profile, True)]\<rparr> = None
         \<longrightarrow> snd (CSPSTiff_write L d self filepath)
               = Inr \<lparr>tiff_file = filepath,
                       tiff_data = composite,
                       tiff_photometric = ''rgb'',
                       tiff_compression = ''adobe_deflate'',
                       tiff_resolution = ((720000, 10000), (720000, 10000)),
                       tiff_resolutionunit = ''inch'',
                       tiff_metadata = None,
                       tiff_extratags = [isd_tag, (34675, 7, None, profile, True)]\<rparr>)"
proof -
  have written: "imwrite L f = None
       \<and> tiff_file f = filepath
       \<and> tiff_photometric f = ''rgb''
       \<and> tiff_compression f = ''adobe_deflate''
       \<and> tiff_resolution f = ((720000, 10000), (720000, 10000))
       \<and> stored_resolution f = Inr ((72, 1), (72, 1))
       \<and> tiff_resolutionunit f = ''inch''
       \<and> tiff_metadata f = None
       \<and> overlay L (layers self) (shape self) = Inr (tiff_data f)
       \<and> (\<exists>ls isd_tag profile.
             prep_layers self = Inr ls
             \<and> tifftag L (TiffImageSourceData
                   (AList.update ''layers'' (PyLayers (PsdLayers LAYER False ls)) d)) = Inr isd_tag
             \<and> cms_profile L ''srgb'' = Inr profile
             \<and> tiff_extratags f = [isd_tag, (34675, 7, None, profile, True)])"
    if w: "CSPSTiff_write L d self filepath = (d', Inr f)" for d' f
  proof -
    have res: "tiff_resolution f = ((720000, 10000), (720000, 10000))"
      using write_success [OF w] by auto
    have "stored_resolution f = Inr ((72, 1), (72, 1))"
      by (simp add: stored_resolution_def res rational_72)
    then show ?thesis
      using write_success [OF w] by auto
  qed
  have returns: "snd (CSPSTiff_write L d self filepath)
               = Inr \<lparr>tiff_file = filepath,
                       tiff_data = composite,
                       tiff_photometric = ''rgb'',
                       tiff_compression = ''adobe_deflate'',
                       tiff_resolution = ((720000, 10000), (720000, 10000)),
                       tiff_resolutionunit = ''inch'',
                       tiff_metadata = None,
                       tiff_extratags = [isd_tag, (34675, 7, None, profile, True)]\<rparr>"
    if "layers self \<noteq> []" and "prep_layers self = Inr ls"
      and "overlay L (layers self) (shape self) = Inr composite"
      and "tifftag L (TiffImageSourceData
               (AList.update ''layers'' (PyLayers (PsdLayers LAYER False ls)) d)) = Inr isd_tag"
      and "cms_profile L ''srgb'' = Inr profile"
      and "imwrite L \<lparr>tiff_file = filepath,
                       tiff_data = composite,
                       tiff_photometric = ''rgb'',
                       tiff_compression = ''adobe_deflate'',
                       tiff_resolution = ((720000, 10000), (720000, 10000)),
                       tiff_resolutionunit = ''inch'',
                       tiff_metadata = None,
                       tiff_extratags = [isd_tag, (34675, 7, None, profile, True)]\<rparr> = None"
    for ls composite isd_tag profile
    unfolding write_steps [OF that(1-5)] using that(6) by (simp add: Let_def)
  show ?thesis
    using written returns by blast
qed

theorem write_container_parameters_witness:
  "(case snd (CSPSTiff_write stub_libs TIFFIMAGESOURCEDATA_PARAMS_DICT
                (fst (add_layer (CSPSTiff_init None) rgba_1x1 (0, 0))) ''out.tif'') of
      Inl e \<Rightarrow> False
    | Inr f \<Rightarrow>
        imwrite stub_libs f = None
        \<and> tiff_file f = ''out.tif''
        \<and> tiff_photometric f = ''rgb''
        \<and> tiff_compression f = ''adobe_deflate''
        \<and> tiff_resolution f = ((720000, 10000), (720000, 10000))
        \<and> stored_resolution f = Inr ((72, 1), (72, 1))
        \<and> tiff_resolutionunit f = ''inch''
        \<and> tiff_metadata f = None
        \<and> tiff_extratags f = [(37724, 7, None, [], True), (34675, 7, None, [], True)])"
proof -
  define s where "s = fst (add_layer (CSPSTiff_init None) rgba_1x1 (0, 0))"
  obtain ls where ls: "prep_layers s = Inr ls"
    unfolding s_def using one_layer_records by blast
  obtain d' f where w: "CSPSTiff_write stub_libs TIFFIMAGESOURCEDATA_PARAMS_DICT s ''out.tif'' = (d', Inr f)"
    and tags: "tiff_extratags f = [(37724, 7, None, [], True), (34675, 7, None, [], True)]"
    using stub_write [OF ls [unfolded s_def], of "''out.tif''"] by (simp add: s_def)
  note T = write_container_parameters [of stub_libs TIFFIMAGESOURCEDATA_PARAMS_DICT s "''out.tif''"]
  from T w tags have "imwrite stub_libs f = None
        \<and> tiff_file f = ''out.tif''
        \<and> tiff_photometric f = ''rgb''
        \<and> tiff_compression f = ''adobe_deflate''
        \<and> tiff_resolution f = ((720000, 10000), (720000, 10000))
        \<and> stored_resolution f = Inr ((72, 1), (72, 1))
        \<and> tiff_resolutionunit f = ''inch''
        \<and> tiff_metadata f = None
        \<and> tiff_extratags f = [(37724, 7, None, [], True), (34675, 7, None, [], True)]"
    by blast
  then have "(case snd (CSPSTiff_write stub_libs TIFFIMAGESOURCEDATA_PARAMS_DICT s ''out.tif'') of
      Inl e \<Rightarrow> False
    | Inr f \<Rightarrow>
        imwrite stub_libs f = None
        \<and> tiff_file f = ''out.tif''
        \<and> tiff_photometric f = ''rgb''
        \<and> tiff_compression f = ''adobe_deflate''
        \<and> tiff_resolution f = ((720000, 10000), (720000, 10000))
        \<and> stored_resolution f = Inr ((72, 1), (72, 1))
        \<and> tiff_resolutionunit f = ''inch''
        \<and> tiff_metadata f = None
        \<and> tiff_extratags f = [(37724, 7, None, [], True), (34675, 7, None, [], True)])"
    by (simp only: w snd_conv sum.case)
  then show ?thesis
    unfolding s_def .
qed

text \<open>
  C8 as stated has the resolution stored as the rational 720000/10000. In the file of a
  write that succeeds, here of a store of one RGBA pixel, it is stored as 72/1 on both
  axes.
\<close>

theorem write_resolution_counterexample:
  "case_sum Inl stored_resolution
     (snd (CSPSTiff_write stub_libs TIFFIMAGESOURCEDATA_PARAMS_DICT
             (fst (add_layer (CSPSTiff_init None) rgba_1x1 (0, 0))) ''out.tif''))
     = Inr ((72, 1), (72, 1))
   \<and> case_sum Inl stored_resolution
     (snd (CSPSTiff_write stub_libs TIFFIMAGESOURCEDATA_PARAMS_DICT
             (fst (add_layer (CSPSTiff_init None) rgba_1x1 (0, 0))) ''out.tif''))
     \<noteq> Inr ((720000, 10000), (720000, 10000))"
proof -
  obtain ls where ls: "prep_layers (fst (add_layer (CSPSTiff_init None) rgba_1x1 (0, 0))) = Inr ls"
    using one_layer_records by blast
  show ?thesis
    unfolding stub_write [OF ls]
    by (simp add: stored_resolution_def rational_72)
qed








end
